theory Spec2Isabelle
  imports Complex_Main "HOL-Library.Option_ord"
begin

text \<open>
  The applicant lifecycle and the review assignment of the hackathon application
  platform: the methods \<^verbatim>\<open>save\<close>, \<^verbatim>\<open>delete\<close> and \<^verbatim>\<open>getKRandomToReview\<close> of
  \<^verbatim>\<open>ApplicantService\<close>, and the handlers \<^verbatim>\<open>submitApplication\<close>, \<^verbatim>\<open>cancel\<close> and \<^verbatim>\<open>checkin\<close>
  of \<^verbatim>\<open>ApplicationController\<close>. Asynchronous methods become functions from the state of
  the database, the object storage and the log to a result and the new state; a rejected
  promise is the left injection of the result.
\<close>

section \<open>JavaScript values\<close>

text \<open>
  The request payload of the controller is untyped (\<^verbatim>\<open>req.body\<close> is \<^verbatim>\<open>any\<close>), and its
  fields flow unchecked into the Applicant entity. A payload value is therefore a JavaScript
  value. Numbers are IEEE doubles: only their classification (NaN, infinite, finite, zero)
  is used by the code, never their arithmetic, so a finite number carries its value as
  a rational.
\<close>

datatype jsnum = NaN | PosInf | NegInf | Fin rat

datatype jsval = Undefined | Null | Bool bool | Num jsnum | Str string | Obj



text \<open>An optional string property (\<^verbatim>\<open>string | undefined\<close>) in a condition: the empty
  string is falsy as well as \<^verbatim>\<open>undefined\<close>.\<close>

fun truthy_str :: "string option \<Rightarrow> bool" where
  "truthy_str None = False"
| "truthy_str (Some s) = (s \<noteq> [])"



fun finite_num :: "jsnum \<Rightarrow> bool" where
  "finite_num (Fin q) = True"
| "finite_num n = False"


section \<open>Data model\<close>

type_synonym ApplicationID = string
type_synonym Buffer = "nat list"
type_synonym timestamp = nat

text \<open>Every failure in the sources is \<^verbatim>\<open>throw new Error(message)\<close>.\<close>

datatype error = Error (message: string)

text \<open>
  \<^verbatim>\<open>ApplicantStatus\<close> is a numeric enum whose declaration
  (\<^verbatim>\<open>services/applications/applicantStatus\<close>) is not among the sources. A status is
  the number it is at run time (the code compares statuses with \<^verbatim>\<open>===\<close> and \<^verbatim>\<open><=\<close>),
  and the functions take the values of the four members they name as a parameter.
\<close>

record ApplicantStatus =
  Applied :: int
  Confirmed :: int
  Admitted :: int
  Cancelled :: int

text \<open>
  The Applicant entity, with the properties the controller assigns
  (\<^verbatim>\<open>submitApplication\<close>) and the ones the service reads (\<^verbatim>\<open>id\<close>, \<^verbatim>\<open>cv\<close>,
  \<^verbatim>\<open>createdAt\<close>). \<^verbatim>\<open>id\<close> and \<^verbatim>\<open>createdAt\<close> are assigned by the database on insert and
  are absent on an entity that was never saved.
\<close>

record Applicant =
  applicant_id :: "ApplicationID option"
  age :: jsnum
  gender :: jsval
  nationality :: jsval
  country :: jsval
  city :: jsval
  university :: jsval
  yearOfStudy :: jsval
  degree :: jsval
  workArea :: jsval
  skills :: jsval
  hackathonCount :: "jsnum option"
  whyChooseHacker :: jsval
  pastProjects :: jsval
  hardwareRequests :: jsval
  dietaryRequirements :: jsval
  tShirtSize :: jsval
  hearAbout :: jsval
  authId :: string
  applicationStatus :: int
  cv :: "string option"
  createdAt :: "timestamp option"

text \<open>
  The Review entity (\<^verbatim>\<open>models/db\<close>, read by the assignment query and by the end-to-end
  review test). The reference to the applicant is a nullable column.
\<close>

record Review =
  review_id :: string
  applicantId :: "ApplicationID option"
  createdByAuthID :: string
  averageScore :: rat
  review_createdAt :: timestamp

text \<open>TypeORM's \<^verbatim>\<open>DeleteResult\<close>: the number of rows the delete removed.\<close>

record DeleteResult =
  affected :: nat

section \<open>The collaborators of the service: database, object storage, logger\<close>

datatype logEntry = LogInfo "string list" | LogError "string list"

text \<open>
  Every write the service asks of a collaborator is recorded, in the order of the calls
  and whether or not the call succeeds, so that the order of an upload and a persist
  can be stated.
\<close>

datatype effect =
    CloudUpload string Buffer
  | CloudDelete string
  | RepoSave Applicant
  | RepoDelete ApplicationID

record world =
  applicants :: "Applicant list"
  reviews :: "Review list"
  storage :: "string \<rightharpoonup> Buffer"
  logger :: "logEntry list"
  effects :: "effect list"

text \<open>
  What the collaborators do during one call of a service method is not decided by the
  service: a call to the database or to the object storage may throw (with a message),
  and an insert draws a new id and the current time. These outcomes are an explicit
  argument of every method.
\<close>

record env =
  findFails :: "string option"
  queryFails :: "string option"
  saveFails :: "string option"
  deleteFails :: "string option"
  uploadFails :: "string option"
  blobDeleteFails :: "string option"
  newId :: ApplicationID
  now :: timestamp

section \<open>ApplicantService.getKRandomToReview\<close>

text \<open>
  First subquery: \<^verbatim>\<open>SELECT review.applicantId FROM review GROUP BY review.applicantId
  HAVING COUNT(review.applicantId) >= 2\<close>. \<^verbatim>\<open>COUNT(column)\<close> counts the rows of the group
  where the column is not NULL, so that the group of NULLs counts 0.
\<close>

definition reviewedTwice :: "Review list \<Rightarrow> ApplicationID option list" where
  "reviewedTwice rs =
     [g \<leftarrow> remdups (map applicantId rs).
        2 \<le> length [r \<leftarrow> rs. applicantId r = g \<and> applicantId r \<noteq> None]]"

text \<open>Second subquery: \<^verbatim>\<open>SELECT review.applicantId FROM review WHERE
  review.createdByAuthID = :authID\<close>.\<close>

definition reviewedBy :: "string \<Rightarrow> Review list \<Rightarrow> ApplicationID option list" where
  "reviewedBy authID rs = map applicantId [r \<leftarrow> rs. createdByAuthID r = authID]"

text \<open>
  \<^verbatim>\<open>x NOT IN (...)\<close> in a \<^verbatim>\<open>WHERE\<close> clause keeps a row only when the comparison is TRUE
  in SQL's three-valued logic: the value is in the list (FALSE) or, not being there, is
  NULL itself or meets a NULL in a non-empty list (UNKNOWN) and the row is dropped.
\<close>

definition sql_not_in :: "'a option \<Rightarrow> 'a option list \<Rightarrow> bool" where
  "sql_not_in x ys =
     (case x of
        None \<Rightarrow> ys = []
      | Some v \<Rightarrow> Some v \<notin> set ys \<and> None \<notin> set ys)"

text \<open>
  The query: both \<^verbatim>\<open>NOT IN\<close> conditions and the status, \<^verbatim>\<open>ORDER BY createdAt ASC\<close>,
  \<^verbatim>\<open>take(chooseFromK)\<close> rows. A failure of the query is logged and answered with the
  empty list. \<^verbatim>\<open>chooseFromK = 5\<close> when the argument is omitted. The limit is a number of
  rows, a natural number. Rows of equal creation time keep the order of the table.
\<close>

text \<open>
  \<^verbatim>\<open>take(k)\<close> of TypeORM's query builder: the builder writes the \<^verbatim>\<open>LIMIT\<close> clause only
  when the limit is truthy (\<^verbatim>\<open>if (limit)\<close>), so that \<^verbatim>\<open>take(0)\<close> limits nothing and the
  query returns all its rows; any other \<^verbatim>\<open>k\<close> keeps the first \<^verbatim>\<open>k\<close> rows.
\<close>

definition take_rows :: "nat \<Rightarrow> 'a list \<Rightarrow> 'a list" where
  "take_rows k xs = (if k = 0 then xs else take k xs)"

definition getKRandomToReview ::
  "ApplicantStatus \<Rightarrow> env \<Rightarrow> string \<Rightarrow> nat option \<Rightarrow> world \<Rightarrow> (error + Applicant list) \<times> world" where
  "getKRandomToReview S e reviewerID chooseFromK_arg w =
     (let chooseFromK = (case chooseFromK_arg of None \<Rightarrow> 5 | Some k \<Rightarrow> k) in
      case queryFails e of
        Some err \<Rightarrow> (Inr [], w\<lparr>logger := logger w @ [LogError [err]]\<rparr>)
      | None \<Rightarrow>
          (Inr (take_rows chooseFromK (sort_key createdAt
             [a \<leftarrow> applicants w.
                sql_not_in (applicant_id a) (reviewedTwice (reviews w)) \<and>
                sql_not_in (applicant_id a) (reviewedBy reviewerID (reviews w)) \<and>
                applicationStatus a = Applied S])), w))"

text \<open>The reviews of an applicant: the rows whose reference equals the applicant's id
  (a NULL on either side matches nothing).\<close>

definition reviewsOf :: "Applicant \<Rightarrow> Review list \<Rightarrow> Review list" where
  "reviewsOf a rs = [r \<leftarrow> rs. applicantId r \<noteq> None \<and> applicantId r = applicant_id a]"

text \<open>The three eligibility conditions of the assignment, in the words of the
  specification.\<close>

definition eligible :: "ApplicantStatus \<Rightarrow> string \<Rightarrow> world \<Rightarrow> Applicant \<Rightarrow> bool" where
  "eligible S reviewerID w a =
     (applicationStatus a = Applied S \<and>
      length (reviewsOf a (reviews w)) < 2 \<and>
      [r \<leftarrow> reviewsOf a (reviews w). createdByAuthID r = reviewerID] = [])"

definition all_eligible :: "ApplicantStatus \<Rightarrow> string \<Rightarrow> world \<Rightarrow> Applicant list \<Rightarrow> bool" where
  "all_eligible S reviewerID w xs = list_all (eligible S reviewerID w) xs"

definition chosen :: "nat option \<Rightarrow> nat" where
  "chosen k = (case k of None \<Rightarrow> 5 | Some n \<Rightarrow> n)"

section \<open>The collaborators' operations\<close>

text \<open>\<^verbatim>\<open>CloudStorageService.upload(key, data)\<close> and \<^verbatim>\<open>delete(key)\<close>: a call that throws
  leaves the storage as it was.\<close>

definition cloud_upload :: "env \<Rightarrow> string \<Rightarrow> Buffer \<Rightarrow> world \<Rightarrow> (string + unit) \<times> world" where
  "cloud_upload e key data w =
     (let w1 = w\<lparr>effects := effects w @ [CloudUpload key data]\<rparr> in
      case uploadFails e of
        Some err \<Rightarrow> (Inl err, w1)
      | None \<Rightarrow> (Inr (), w1\<lparr>storage := (storage w1)(key \<mapsto> data)\<rparr>))"

definition cloud_delete :: "env \<Rightarrow> string \<Rightarrow> world \<Rightarrow> (string + unit) \<times> world" where
  "cloud_delete e key w =
     (let w1 = w\<lparr>effects := effects w @ [CloudDelete key]\<rparr> in
      case blobDeleteFails e of
        Some err \<Rightarrow> (Inl err, w1)
      | None \<Rightarrow> (Inr (), w1\<lparr>storage := (storage w1)(key := None)\<rparr>))"

text \<open>
  \<^verbatim>\<open>Repository.save(entity)\<close> writes the columns that the entity defines. An entity
  without id, or whose id is in no row, is inserted: the database assigns the id and the
  creation time that the entity leaves undefined, and the entity is returned with them.
  An entity whose id is in the table updates that row: a column that the entity leaves
  undefined keeps its stored value. The number \<^verbatim>\<open>age\<close>, the identity \<^verbatim>\<open>authId\<close> and the
  status are never undefined here.
\<close>

definition defined_or :: "jsval \<Rightarrow> jsval \<Rightarrow> jsval" where
  "defined_or v stored = (if v = Undefined then stored else v)"

definition some_or :: "'a option \<Rightarrow> 'a option \<Rightarrow> 'a option" where
  "some_or v stored = (case v of None \<Rightarrow> stored | Some x \<Rightarrow> Some x)"

definition written_over :: "Applicant \<Rightarrow> Applicant \<Rightarrow> Applicant" where
  "written_over entity row =
     \<lparr>applicant_id = some_or (applicant_id entity) (applicant_id row),
      age = age entity,
      gender = defined_or (gender entity) (gender row),
      nationality = defined_or (nationality entity) (nationality row),
      country = defined_or (country entity) (country row),
      city = defined_or (city entity) (city row),
      university = defined_or (university entity) (university row),
      yearOfStudy = defined_or (yearOfStudy entity) (yearOfStudy row),
      degree = defined_or (degree entity) (degree row),
      workArea = defined_or (workArea entity) (workArea row),
      skills = defined_or (skills entity) (skills row),
      hackathonCount = some_or (hackathonCount entity) (hackathonCount row),
      whyChooseHacker = defined_or (whyChooseHacker entity) (whyChooseHacker row),
      pastProjects = defined_or (pastProjects entity) (pastProjects row),
      hardwareRequests = defined_or (hardwareRequests entity) (hardwareRequests row),
      dietaryRequirements = defined_or (dietaryRequirements entity) (dietaryRequirements row),
      tShirtSize = defined_or (tShirtSize entity) (tShirtSize row),
      hearAbout = defined_or (hearAbout entity) (hearAbout row),
      authId = authId entity,
      applicationStatus = applicationStatus entity,
      cv = some_or (cv entity) (cv row),
      createdAt = some_or (createdAt entity) (createdAt row)\<rparr>"

definition repo_save :: "env \<Rightarrow> Applicant \<Rightarrow> world \<Rightarrow> (string + Applicant) \<times> world" where
  "repo_save e a w =
     (let w1 = w\<lparr>effects := effects w @ [RepoSave a]\<rparr>;
          inserted = a\<lparr>applicant_id := some_or (applicant_id a) (Some (newId e)),
                       createdAt := some_or (createdAt a) (Some (now e))\<rparr> in
      case saveFails e of
        Some err \<Rightarrow> (Inl err, w1)
      | None \<Rightarrow>
          (case applicant_id a of
             None \<Rightarrow> (Inr inserted, w1\<lparr>applicants := applicants w1 @ [inserted]\<rparr>)
           | Some i \<Rightarrow>
               if Some i \<in> set (map applicant_id (applicants w1))
               then (Inr a, w1\<lparr>applicants :=
                       map (\<lambda>row. if applicant_id row = Some i then written_over a row else row)
                         (applicants w1)\<rparr>)
               else (Inr inserted, w1\<lparr>applicants := applicants w1 @ [inserted]\<rparr>)))"

text \<open>\<^verbatim>\<open>Repository.findOneOrFail(id)\<close>: the row with this id, or a rejection when there is
  none (or when the database fails).\<close>

definition repo_findOneOrFail :: "env \<Rightarrow> ApplicationID \<Rightarrow> world \<Rightarrow> string + Applicant" where
  "repo_findOneOrFail e i w =
     (case findFails e of
        Some err \<Rightarrow> Inl err
      | None \<Rightarrow>
          (case find (\<lambda>a. applicant_id a = Some i) (applicants w) of
             None \<Rightarrow> Inl ''Could not find any entity of type Applicant matching the id''
           | Some a \<Rightarrow> Inr a))"

text \<open>\<^verbatim>\<open>Repository.delete(id)\<close>: removes the rows with this id and reports how many.\<close>

definition repo_delete :: "env \<Rightarrow> ApplicationID \<Rightarrow> world \<Rightarrow> (string + DeleteResult) \<times> world" where
  "repo_delete e i w =
     (let w1 = w\<lparr>effects := effects w @ [RepoDelete i]\<rparr> in
      case deleteFails e of
        Some err \<Rightarrow> (Inl err, w1)
      | None \<Rightarrow>
          (Inr \<lparr>affected = length [a \<leftarrow> applicants w1. applicant_id a = Some i]\<rparr>,
           w1\<lparr>applicants := [a \<leftarrow> applicants w1. applicant_id a \<noteq> Some i]\<rparr>))"

section \<open>ApplicantService.save\<close>

text \<open>
  The validation (\<^verbatim>\<open>validateOrReject\<close> of class-validator, driven by the decorators of
  the Applicant entity, which is not among the sources) is a parameter: it gives the
  list of violations of an applicant, empty when the applicant is valid.

  The method is \<^verbatim>\<open>@Transactional()\<close>: an error rolls the database back. The only
  database write of \<^verbatim>\<open>save\<close> and of \<^verbatim>\<open>delete\<close> is their last step, which writes
  nothing when it fails, so that there is never anything to roll back.
\<close>

text \<open>Lines 103 to 107: the persist, with its error message.\<close>

definition persist :: "env \<Rightarrow> Applicant \<Rightarrow> world \<Rightarrow> (error + Applicant) \<times> world" where
  "persist e newApplicant w =
     (case repo_save e newApplicant w of
        (Inl err, w') \<Rightarrow> (Inl (Error (''Failed to save applicant:'' @ [CHR 0x0A] @ err)), w')
      | (Inr saved, w') \<Rightarrow> (Inr saved, w'))"

definition save ::
  "(Applicant \<Rightarrow> string list) \<Rightarrow> env \<Rightarrow> Applicant \<Rightarrow> Buffer option \<Rightarrow> world \<Rightarrow>
   (error + Applicant) \<times> world" where
  "save validate e newApplicant file w =
     (case validate newApplicant of
        v # vs \<Rightarrow>
          (Inl (Error ''Failed to validate applicant''),
           w\<lparr>logger := logger w @ [LogError (v # vs)]\<rparr>)
      | [] \<Rightarrow>
          (case (file, cv newApplicant) of
             (Some data, Some key) \<Rightarrow>
               if key \<noteq> [] then
                 (case cloud_upload e key data w of
                    (Inl err, w') \<Rightarrow> (Inl (Error ''Failed to save applicant CV''), w')
                  | (Inr u, w') \<Rightarrow> persist e newApplicant w')
               else persist e newApplicant w
           | (Some data, None) \<Rightarrow> persist e newApplicant w
           | (None, c) \<Rightarrow> persist e newApplicant w))"

section \<open>ApplicantService.delete\<close>

text \<open>Lines 120 to 126: the best-effort removal of the CV; a failure is logged and
  goes no further.\<close>

definition remove_cv :: "env \<Rightarrow> Applicant \<Rightarrow> world \<Rightarrow> world" where
  "remove_cv e applicant w =
     (case cv applicant of
        None \<Rightarrow> w
      | Some key \<Rightarrow>
          if key \<noteq> [] then
            (case cloud_delete e key w of
               (Inl err, w') \<Rightarrow>
                 w'\<lparr>logger := logger w' @ [LogError [err, ''Failed to remove the applicants CV'']]\<rparr>
             | (Inr u, w') \<Rightarrow> w')
          else w)"

definition delete :: "env \<Rightarrow> ApplicationID \<Rightarrow> world \<Rightarrow> (error + DeleteResult) \<times> world" where
  "delete e i w =
     (case repo_findOneOrFail e i w of
        Inl err \<Rightarrow> (Inl (Error ''Failed to find applicant using the provided ID''), w)
      | Inr applicant \<Rightarrow>
          (case repo_delete e i (remove_cv e applicant w) of
             (Inl err, w') \<Rightarrow>
               (Inl (Error (''Failed to remove an applicant:'' @ [CHR 0x0A] @ err)), w')
           | (Inr r, w') \<Rightarrow> (Inr r, w')))"

section \<open>The review recording service\<close>

text \<open>
  Modelled from the spec: the Review Recording Service (the controller and service behind
  \<^verbatim>\<open>POST /review/submit\<close>) is not among the sources, only its end-to-end test is.
  Following section 4.3 of the specification, a submission creates the Review row binding
  the applicant, the reviewer, the score as supplied and the current time, and a second
  review of the same applicant by the same reviewer fails with ConflictError; the check
  and the insert are one step (one transaction).
\<close>

datatype reviewError = ConflictError

definition submitReview ::
  "env \<Rightarrow> string \<Rightarrow> ApplicationID \<Rightarrow> rat \<Rightarrow> world \<Rightarrow> (reviewError + Review) \<times> world" where
  "submitReview e reviewerID applicantID score w =
     (if [r \<leftarrow> reviews w. createdByAuthID r = reviewerID \<and> applicantId r = Some applicantID] \<noteq> []
      then (Inl ConflictError, w)
      else
        (let review = \<lparr>review_id = newId e, applicantId = Some applicantID,
                        createdByAuthID = reviewerID, averageScore = score,
                        review_createdAt = now e\<rparr>
         in (Inr review, w\<lparr>reviews := reviews w @ [review]\<rparr>)))"

text \<open>A history of submissions, each with the outcomes of its own call.\<close>

fun submitAll :: "(env \<times> string \<times> ApplicationID \<times> rat) list \<Rightarrow> world \<Rightarrow> world" where
  "submitAll [] w = w"
| "submitAll ((e, reviewerID, applicantID, score) # rest) w =
     submitAll rest (snd (submitReview e reviewerID applicantID score w))"

text \<open>The stored reviews of one reviewer for one applicant.\<close>

definition reviewsOfPair :: "string \<Rightarrow> ApplicationID \<Rightarrow> world \<Rightarrow> Review list" where
  "reviewsOfPair reviewerID applicantID w =
     [r \<leftarrow> reviews w. createdByAuthID r = reviewerID \<and> applicantId r = Some applicantID]"

section \<open>ApplicationController\<close>

text \<open>
  The controller receives the service by injection (the tests hand it a mock), so its
  model takes the service as a record of operations over a state of any type. The
  controller names the deletion \<^verbatim>\<open>remove\<close>. Each call the controller makes is recorded
  in the order made.
\<close>

record 'w ApplicantService =
  svc_findOne :: "string \<Rightarrow> string option \<Rightarrow> 'w \<Rightarrow> (error + Applicant) \<times> 'w"
  svc_save :: "Applicant \<Rightarrow> Buffer option \<Rightarrow> 'w \<Rightarrow> (error + Applicant) \<times> 'w"
  svc_remove :: "ApplicationID option \<Rightarrow> 'w \<Rightarrow> (error + DeleteResult) \<times> 'w"

datatype ServiceCall =
    FindOne string "string option"
  | Save Applicant "Buffer option"
  | Remove "ApplicationID option"

datatype HttpResponseCode = OK | BAD_REQUEST

text \<open>What the handler answers: \<^verbatim>\<open>res.status(code).send({error, message})\<close> (status OK
  and no error flag when the source gives none), \<^verbatim>\<open>res.redirect(url)\<close> or
  \<^verbatim>\<open>next(err)\<close>.\<close>

datatype Response =
    Send HttpResponseCode bool string
  | Redirect string
  | Next error

record RequestUser =
  user_authId :: string
  user_name :: string
  user_email :: string




subsection \<open>submitApplication\<close>






subsection \<open>cancel\<close>

text \<open>\<^verbatim>\<open>res.locals.applicationsOpen\<close> is the boolean argument.\<close>

definition cancel ::
  "ApplicantStatus \<Rightarrow> 'w ApplicantService \<Rightarrow> RequestUser \<Rightarrow> bool \<Rightarrow> 'w \<Rightarrow>
   (Response \<times> ServiceCall list) \<times> 'w" where
  "cancel S svc reqUser applicationsOpen st =
     (let found = FindOne (user_authId reqUser) (Some ''authId'') in
      case svc_findOne svc (user_authId reqUser) (Some ''authId'') st of
        (Inl err, st1) \<Rightarrow> ((Next err, [found]), st1)
      | (Inr application, st1) \<Rightarrow>
          if applicationStatus application \<le> Applied S \<and> applicationsOpen then
            (case svc_remove svc (applicant_id application) st1 of
               (Inl err, st2) \<Rightarrow> ((Next err, [found, Remove (applicant_id application)]), st2)
             | (Inr r, st2) \<Rightarrow>
                 ((Redirect ''/'', [found, Remove (applicant_id application)]), st2))
          else
            (let application' = application\<lparr>applicationStatus := Cancelled S\<rparr> in
             case svc_save svc application' None st1 of
               (Inl err, st2) \<Rightarrow> ((Next err, [found, Save application' None]), st2)
             | (Inr saved, st2) \<Rightarrow> ((Redirect ''/'', [found, Save application' None]), st2)))"

subsection \<open>checkin\<close>

definition checkin ::
  "ApplicantStatus \<Rightarrow> 'w ApplicantService \<Rightarrow> string \<Rightarrow> 'w \<Rightarrow>
   (Response \<times> ServiceCall list) \<times> 'w" where
  "checkin S svc checkinID st =
     (case svc_findOne svc checkinID None st of
        (Inl err, st1) \<Rightarrow>
          ((Send BAD_REQUEST False ''Hacker could not be checked in'',
            [FindOne checkinID None]), st1)
      | (Inr application, st1) \<Rightarrow>
          if applicationStatus application = Confirmed S then
            (let application' = application\<lparr>applicationStatus := Admitted S\<rparr> in
             case svc_save svc application' None st1 of
               (Inl err, st2) \<Rightarrow>
                 ((Send BAD_REQUEST False ''Hacker could not be checked in'',
                   [FindOne checkinID None, Save application' None]), st2)
             | (Inr saved, st2) \<Rightarrow>
                 ((Send OK False ''Hacker checked in!'',
                   [FindOne checkinID None, Save application' None]), st2))
          else
            ((Send BAD_REQUEST False ''Hacker was either rejected or did not confirm'',
              [FindOne checkinID None]), st1))"

section \<open>The words of the specification\<close>

text \<open>\<^verbatim>\<open>s.includes(sub)\<close>: \<^verbatim>\<open>sub\<close> occurs in \<^verbatim>\<open>s\<close>.\<close>

primrec js_includes :: "string \<Rightarrow> string \<Rightarrow> bool" where
  "js_includes [] sub = (sub = [])"
| "js_includes (c # cs) sub = (take (length sub) (c # cs) = sub \<or> js_includes cs sub)"

text \<open>An error lists the violations when each of them can be read in its message, the
  only content an \<^verbatim>\<open>Error\<close> has.\<close>

definition lists_violations :: "error \<Rightarrow> string list \<Rightarrow> bool" where
  "lists_violations err vs = list_all (js_includes (message err)) vs"


section \<open>Test data\<close>

text \<open>Values for the enum members, the applicant and the request of the end-to-end
  tests, some reviews, collaborators that do not fail, and built-in conversions that
  read numbers only.\<close>

definition exampleStatus :: ApplicantStatus where
  "exampleStatus = \<lparr>Applied = 1, Confirmed = 4, Admitted = 5, Cancelled = 7\<rparr>"

definition testApplicant ::
  "ApplicationID option \<Rightarrow> int \<Rightarrow> string option \<Rightarrow> timestamp option \<Rightarrow> Applicant" where
  "testApplicant i st key t =
     \<lparr>applicant_id = i, age = Fin 20, gender = Str ''Test'', nationality = Str ''UK'',
      country = Str ''UK'', city = Str ''Manchester'', university = Str ''UoM'',
      yearOfStudy = Str ''Foundation'', degree = Str ''CS'', workArea = Str ''This'',
      skills = Undefined, hackathonCount = Some (Fin 0), whyChooseHacker = Undefined,
      pastProjects = Undefined, hardwareRequests = Undefined,
      dietaryRequirements = Str ''Test'', tShirtSize = Str ''M'', hearAbout = Str ''IDK'',
      authId = ''010101'', applicationStatus = st, cv = key, createdAt = t\<rparr>"

definition testReview :: "string \<Rightarrow> ApplicationID \<Rightarrow> string \<Rightarrow> Review" where
  "testReview i a reviewer =
     \<lparr>review_id = i, applicantId = Some a, createdByAuthID = reviewer, averageScore = 2,
      review_createdAt = 50\<rparr>"

definition noFailure :: env where
  "noFailure =
     \<lparr>findFails = None, queryFails = None, saveFails = None, deleteFails = None,
      uploadFails = None, blobDeleteFails = None, newId = ''11bf5b37'', now = 100\<rparr>"

definition emptyWorld :: world where
  "emptyWorld = \<lparr>applicants = [], reviews = [], storage = Map.empty, logger = [], effects = []\<rparr>"

definition reviewWorld :: world where
  "reviewWorld =
     \<lparr>applicants =
        [testApplicant (Some ''a1'') 1 None (Some 30),
         testApplicant (Some ''a2'') 1 None (Some 10),
         testApplicant (Some ''a3'') 1 None (Some 20),
         testApplicant (Some ''a4'') 1 None (Some 5),
         testApplicant (Some ''a5'') 4 None (Some 1)],
      reviews =
        [testReview ''r1'' ''a2'' ''rev2'',
         testReview ''r2'' ''a3'' ''rev1'',
         testReview ''r3'' ''a4'' ''rev2'',
         testReview ''r4'' ''a4'' ''rev3''],
      storage = Map.empty, logger = [], effects = []\<rparr>"

definition cvWorld :: world where
  "cvWorld =
     \<lparr>applicants = [testApplicant (Some ''a1'') 1 (Some ''u.txt'') (Some 30)],
      reviews = [], storage = [''u.txt'' \<mapsto> [117]], logger = [], effects = []\<rparr>"

definition ageValidator :: "Applicant \<Rightarrow> string list" where
  "ageValidator a = (if finite_num (age a) then [] else [''age must be a number''])"

definition noValidator :: "Applicant \<Rightarrow> string list" where
  "noValidator a = []"

text \<open>A service as the tests set it up: the lookup is mocked and answers a given
  applicant; saving and deleting are the service's own, with no failure (a deletion
  without an id is rejected).\<close>

definition testService :: "Applicant \<Rightarrow> world ApplicantService" where
  "testService a =
     \<lparr>svc_findOne = (\<lambda>key findBy w. (Inr a, w)),
      svc_save = save noValidator noFailure,
      svc_remove =
        (\<lambda>i w. case i of
                  None \<Rightarrow> (Inl (Error ''Failed to find applicant using the provided ID''), w)
                | Some j \<Rightarrow> delete noFailure j w)\<rparr>"








section \<open>Properties of the assignment query\<close>

lemma sql_not_in_Some: "sql_not_in (Some v) ys \<Longrightarrow> Some v \<notin> set ys"
  by (simp add: sql_not_in_def)

lemma reviewedTwice_mem:
  assumes "2 \<le> length [r \<leftarrow> rs. applicantId r = Some i]"
  shows "Some i \<in> set (reviewedTwice rs)"
proof -
  from assms have "[r \<leftarrow> rs. applicantId r = Some i] \<noteq> []" by auto
  then obtain r where "r \<in> set rs" "applicantId r = Some i"
    by (auto simp: filter_empty_conv)
  then have g: "Some i \<in> set (map applicantId rs)" by force
  have "[r \<leftarrow> rs. applicantId r = Some i \<and> applicantId r \<noteq> None] = [r \<leftarrow> rs. applicantId r = Some i]"
    by (rule filter_cong) auto
  with assms g show ?thesis by (simp add: reviewedTwice_def)
qed

lemma reviewsOf_Some:
  "applicant_id a = Some i \<Longrightarrow> reviewsOf a rs = [r \<leftarrow> rs. applicantId r = Some i]"
  unfolding reviewsOf_def by (rule filter_cong) auto

lemma reviewsOf_None: "applicant_id a = None \<Longrightarrow> reviewsOf a rs = []"
  by (auto simp: reviewsOf_def filter_empty_conv)

lemma not_in_reviewedTwice:
  "sql_not_in (applicant_id a) (reviewedTwice rs) \<Longrightarrow> length (reviewsOf a rs) < 2"
proof (cases "applicant_id a")
  case None
  then show ?thesis by (simp add: reviewsOf_None)
next
  case (Some i)
  assume "sql_not_in (applicant_id a) (reviewedTwice rs)"
  with Some have "Some i \<notin> set (reviewedTwice rs)" by (simp add: sql_not_in_Some)
  with reviewedTwice_mem [where rs = rs and i = i] have "\<not> 2 \<le> length [r \<leftarrow> rs. applicantId r = Some i]"
    by blast
  with Some show ?thesis by (simp add: reviewsOf_Some)
qed

lemma not_in_reviewedBy:
  "sql_not_in (applicant_id a) (reviewedBy reviewerID rs) \<Longrightarrow>
   [r \<leftarrow> reviewsOf a rs. createdByAuthID r = reviewerID] = []"
proof (cases "applicant_id a")
  case None
  then show ?thesis by (simp add: reviewsOf_None)
next
  case (Some i)
  assume "sql_not_in (applicant_id a) (reviewedBy reviewerID rs)"
  with Some have "Some i \<notin> set (reviewedBy reviewerID rs)" by (simp add: sql_not_in_Some)
  then have "\<forall>r \<in> set rs. createdByAuthID r = reviewerID \<longrightarrow> applicantId r \<noteq> Some i"
    by (force simp: reviewedBy_def)
  with Some show ?thesis by (auto simp: reviewsOf_Some filter_empty_conv)
qed

lemma set_take_rows: "set (take_rows k xs) \<subseteq> set xs"
  using set_take_subset [of k xs] by (simp add: take_rows_def)

lemma length_take_rows: "0 < k \<Longrightarrow> length (take_rows k xs) \<le> k"
  by (simp add: take_rows_def)

lemma list_all_take_sort_filter:
  "(\<And>a. P a \<Longrightarrow> Q a) \<Longrightarrow> list_all Q (take_rows k (sort_key f (filter P xs)))"
proof -
  assume pq: "\<And>a. P a \<Longrightarrow> Q a"
  have "set (take_rows k (sort_key f (filter P xs))) \<subseteq> set (filter P xs)"
    using set_take_rows [of k "sort_key f (filter P xs)"] by simp
  with pq show ?thesis by (auto simp: list_all_iff)
qed

lemma sorted_take_sort_key:
  "sorted (map f (take_rows k (sort_key f xs)))"
proof (cases "k = 0")
  case True
  then show ?thesis by (simp add: take_rows_def)
next
  case False
  have "sorted (take k (map f (sort_key f xs)))"
    by (rule sorted_wrt_take) (rule sorted_sort_key)
  with False show ?thesis by (simp add: take_map take_rows_def)
qed

text \<open>
  C1 (as amended). For every reviewer, every limit and every stored set of applicants and
  reviews, \<^verbatim>\<open>getKRandomToReview\<close> returns stored applicants each of whom has the status
  Applied, fewer than two reviews in all, and no review by this reviewer, in ascending
  order of creation time; and when \<^verbatim>\<open>chooseFromK\<close> is at least 1 (it is 5 when the
  argument is omitted) it returns at most \<^verbatim>\<open>chooseFromK\<close> of them.
\<close>

theorem getKRandomToReview_eligible_sorted:
  "\<exists>xs. fst (getKRandomToReview S e reviewerID k w) = Inr xs \<and>
        (0 < chosen k \<longrightarrow> length xs \<le> chosen k) \<and>
        set xs \<subseteq> set (applicants w) \<and>
        all_eligible S reviewerID w xs \<and>
        sorted (map createdAt xs)"
proof (cases "queryFails e")
  case (Some err)
  then show ?thesis
    by (simp add: getKRandomToReview_def all_eligible_def)
next
  case None
  let ?P = "\<lambda>a. sql_not_in (applicant_id a) (reviewedTwice (reviews w)) \<and>
                 sql_not_in (applicant_id a) (reviewedBy reviewerID (reviews w)) \<and>
                 applicationStatus a = Applied S"
  let ?xs = "take_rows (chosen k) (sort_key createdAt (filter ?P (applicants w)))"
  have res: "fst (getKRandomToReview S e reviewerID k w) = Inr ?xs"
    using None by (simp add: getKRandomToReview_def chosen_def)
  have len: "0 < chosen k \<longrightarrow> length ?xs \<le> chosen k"
    by (simp add: length_take_rows)
  have sub: "set ?xs \<subseteq> set (applicants w)"
    using set_take_rows [of "chosen k" "sort_key createdAt (filter ?P (applicants w))"]
    by auto
  have el: "all_eligible S reviewerID w ?xs"
    unfolding all_eligible_def
    by (rule list_all_take_sort_filter)
       (simp add: eligible_def not_in_reviewedTwice not_in_reviewedBy)
  have srt: "sorted (map createdAt ?xs)" by (rule sorted_take_sort_key)
  show ?thesis
    by (rule exI [of _ ?xs]) (intro conjI res len sub el srt)
qed

theorem getKRandomToReview_eligible_sorted_witness:
  "fst (getKRandomToReview exampleStatus noFailure ''rev1'' None reviewWorld) =
     Inr [testApplicant (Some ''a2'') 1 None (Some 10), testApplicant (Some ''a1'') 1 None (Some 30)] \<and>
   length [testApplicant (Some ''a2'') 1 None (Some 10), testApplicant (Some ''a1'') 1 None (Some 30)]
     \<le> chosen None \<and>
   all_eligible exampleStatus ''rev1'' reviewWorld
     [testApplicant (Some ''a2'') 1 None (Some 10), testApplicant (Some ''a1'') 1 None (Some 30)] \<and>
   sorted (map createdAt
     [testApplicant (Some ''a2'') 1 None (Some 10), testApplicant (Some ''a1'') 1 None (Some 30)]) \<and>
   fst (getKRandomToReview exampleStatus noFailure ''rev1'' (Some 1) reviewWorld) =
     Inr [testApplicant (Some ''a2'') 1 None (Some 10)]"
proof -
  have run: "fst (getKRandomToReview exampleStatus noFailure ''rev1'' None reviewWorld) =
      Inr [testApplicant (Some ''a2'') 1 None (Some 10), testApplicant (Some ''a1'') 1 None (Some 30)]"
    by (simp add: getKRandomToReview_def exampleStatus_def noFailure_def reviewWorld_def
        testApplicant_def testReview_def reviewedTwice_def reviewedBy_def sql_not_in_def
        take_rows_def)
  have one: "fst (getKRandomToReview exampleStatus noFailure ''rev1'' (Some 1) reviewWorld) =
      Inr [testApplicant (Some ''a2'') 1 None (Some 10)]"
    by (simp add: getKRandomToReview_def exampleStatus_def noFailure_def reviewWorld_def
        testApplicant_def testReview_def reviewedTwice_def reviewedBy_def sql_not_in_def
        take_rows_def)
  have pos: "0 < chosen None" by (simp add: chosen_def)
  from getKRandomToReview_eligible_sorted [of exampleStatus noFailure "''rev1''" None reviewWorld]
  obtain xs where xs:
    "fst (getKRandomToReview exampleStatus noFailure ''rev1'' None reviewWorld) = Inr xs \<and>
     (0 < chosen None \<longrightarrow> length xs \<le> chosen None) \<and>
     set xs \<subseteq> set (applicants reviewWorld) \<and>
     all_eligible exampleStatus ''rev1'' reviewWorld xs \<and>
     sorted (map createdAt xs)" ..
  from xs run have eq:
    "xs = [testApplicant (Some ''a2'') 1 None (Some 10), testApplicant (Some ''a1'') 1 None (Some 30)]"
    by simp
  from xs pos have "length xs \<le> chosen None" by simp
  moreover from xs have "all_eligible exampleStatus ''rev1'' reviewWorld xs" by simp
  moreover from xs have "sorted (map createdAt xs)" by simp
  ultimately show ?thesis using run one unfolding eq by simp
qed

text \<open>
  The claim C1 as stated bounds the result by \<^verbatim>\<open>chooseFromK\<close> for every limit. With the
  limit 0 no \<^verbatim>\<open>LIMIT\<close> is written, and the query returns both applicants that the reviewer
  may review: two rows, more than 0.
\<close>

theorem getKRandomToReview_zero_unlimited:
  "fst (getKRandomToReview exampleStatus noFailure ''rev1'' (Some 0) reviewWorld) =
     Inr [testApplicant (Some ''a2'') 1 None (Some 10), testApplicant (Some ''a1'') 1 None (Some 30)] \<and>
   \<not> length [testApplicant (Some ''a2'') 1 None (Some 10), testApplicant (Some ''a1'') 1 None (Some 30)]
       \<le> chosen (Some 0)"
  by (simp add: getKRandomToReview_def exampleStatus_def noFailure_def reviewWorld_def
      testApplicant_def testReview_def reviewedTwice_def reviewedBy_def sql_not_in_def
      take_rows_def chosen_def)

text \<open>
  C4. When the repository query fails, \<^verbatim>\<open>getKRandomToReview\<close> does not raise: it logs
  the error and returns the empty sequence, whatever the reviewer and the limit, and
  leaves the stored data as it was.
\<close>

theorem getKRandomToReview_fail_soft:
  "queryFails e = Some err \<Longrightarrow>
   getKRandomToReview S e reviewerID k w =
     (Inr [], w\<lparr>logger := logger w @ [LogError [err]]\<rparr>)"
  by (simp add: getKRandomToReview_def)

theorem getKRandomToReview_fail_soft_witness:
  "getKRandomToReview exampleStatus (noFailure\<lparr>queryFails := Some ''connection lost''\<rparr>)
      ''rev1'' None reviewWorld =
     (Inr [], reviewWorld\<lparr>logger := logger reviewWorld @ [LogError [''connection lost'']]\<rparr>)"
proof -
  have "queryFails (noFailure\<lparr>queryFails := Some ''connection lost''\<rparr>) = Some ''connection lost''"
    by simp
  then show ?thesis by (rule getKRandomToReview_fail_soft)
qed

section \<open>Properties of save\<close>

lemma effects_persist: "effects (snd (persist e a w)) = effects w @ [RepoSave a]"
  by (simp add: persist_def repo_save_def Let_def split: option.splits)

lemma storage_persist: "storage (snd (persist e a w)) = storage w"
  by (simp add: persist_def repo_save_def Let_def split: option.splits)

lemma written_over_idem: "written_over a (written_over a row) = written_over a row"
  by (simp add: written_over_def defined_or_def some_or_def split: option.splits)

lemma written_over_self: "written_over a a = a"
  by (simp add: written_over_def defined_or_def some_or_def split: option.splits)

lemma persist_stores:
  assumes ok: "saveFails e = None"
  shows "\<exists>saved row. fst (persist e a w) = Inr saved \<and>
           row \<in> set (applicants (snd (persist e a w))) \<and>
           written_over saved row = row \<and>
           (applicant_id a = None \<longrightarrow> row = saved)"
proof -
  let ?ins = "a\<lparr>applicant_id := some_or (applicant_id a) (Some (newId e)),
                 createdAt := some_or (createdAt a) (Some (now e))\<rparr>"
  have inserted: "fst (persist e a w) = Inr ?ins \<and>
      ?ins \<in> set (applicants (snd (persist e a w))) \<and>
      written_over ?ins ?ins = ?ins \<and> (applicant_id a = None \<longrightarrow> ?ins = ?ins)"
    if "Some (the (applicant_id a)) \<notin> set (map applicant_id (applicants w)) \<or> applicant_id a = None"
    using that ok
    by (cases "applicant_id a")
       (simp_all add: persist_def repo_save_def Let_def written_over_self)
  show ?thesis
  proof (cases "applicant_id a")
    case None
    then have "fst (persist e a w) = Inr ?ins \<and>
      ?ins \<in> set (applicants (snd (persist e a w))) \<and>
      written_over ?ins ?ins = ?ins \<and> (applicant_id a = None \<longrightarrow> ?ins = ?ins)"
      by (intro inserted) simp
    then show ?thesis
      by - (rule exI [of _ ?ins], rule exI [of _ ?ins])
  next
    case (Some i)
    show ?thesis
    proof (cases "Some i \<in> set (map applicant_id (applicants w))")
      case True
      then obtain row where row: "row \<in> set (applicants w)" "applicant_id row = Some i" by auto
      then have "written_over a row \<in>
          (\<lambda>row. if applicant_id row = Some i then written_over a row else row) ` set (applicants w)"
        by (intro image_eqI [where x = row]) auto
      with ok Some True have "fst (persist e a w) = Inr a \<and>
          written_over a row \<in> set (applicants (snd (persist e a w))) \<and>
          written_over a (written_over a row) = written_over a row \<and>
          (applicant_id a = None \<longrightarrow> written_over a row = a)"
        by (simp add: persist_def repo_save_def Let_def written_over_idem)
      then show ?thesis
        by - (rule exI [of _ a], rule exI [of _ "written_over a row"])
    next
      case False
      with Some have "fst (persist e a w) = Inr ?ins \<and>
        ?ins \<in> set (applicants (snd (persist e a w))) \<and>
        written_over ?ins ?ins = ?ins \<and> (applicant_id a = None \<longrightarrow> ?ins = ?ins)"
        by (intro inserted) simp
      then show ?thesis
        by - (rule exI [of _ ?ins], rule exI [of _ ?ins])
    qed
  qed
qed

lemma repo_save_update:
  assumes "saveFails e = None" and "applicant_id a = Some i" and "applicant_id row = Some i"
  shows "applicants (snd (repo_save e a (w\<lparr>applicants := [row]\<rparr>))) = [written_over a row]"
    and "createdAt a = None \<Longrightarrow> createdAt (written_over a row) = createdAt row"
  using assms by (simp_all add: repo_save_def Let_def written_over_def some_or_def)

lemma save_invalid:
  "validate a \<noteq> [] \<Longrightarrow>
   save validate e a cvFile w =
     (Inl (Error ''Failed to validate applicant''), w\<lparr>logger := logger w @ [LogError (validate a)]\<rparr>)"
  by (cases "validate a") (simp_all add: save_def)

lemma save_no_upload:
  "validate a = [] \<Longrightarrow> cvFile = None \<or> \<not> truthy_str (cv a) \<Longrightarrow>
   save validate e a cvFile w = persist e a w"
  by (cases cvFile; cases "cv a") (auto simp: save_def)



text \<open>
  C5 (as amended). When the applicant violates a constraint, \<^verbatim>\<open>save\<close> fails with the
  fixed error \<^verbatim>\<open>Failed to validate applicant\<close>; the violations are written to the log
  and are not part of the error. Neither the upload nor the persist is performed: apart
  from the log, nothing changes.
\<close>

theorem save_rejects_invalid:
  assumes "validate a \<noteq> []"
  shows "save validate e a cvFile w =
     (Inl (Error ''Failed to validate applicant''),
      w\<lparr>logger := logger w @ [LogError (validate a)]\<rparr>)"
proof -
  from assms obtain v vs where "validate a = v # vs"
    by (cases "validate a") auto
  then show ?thesis by (simp add: save_def)
qed

theorem save_rejects_invalid_witness:
  "save ageValidator noFailure ((testApplicant None 1 (Some ''u.txt'') None)\<lparr>age := NaN\<rparr>)
      (Some [117]) emptyWorld =
     (Inl (Error ''Failed to validate applicant''),
      emptyWorld\<lparr>logger := [LogError [''age must be a number'']]\<rparr>)"
  using save_rejects_invalid [where validate = ageValidator and e = noFailure
      and a = "(testApplicant None 1 (Some ''u.txt'') None)\<lparr>age := NaN\<rparr>"
      and cvFile = "Some [117]" and w = emptyWorld]
  by (simp add: testApplicant_def emptyWorld_def ageValidator_def)

text \<open>
  The claim C5 as stated asks for an error that lists the violations. For an applicant
  whose only violation is \<^verbatim>\<open>age must be a number\<close>, the error of \<^verbatim>\<open>save\<close> has the message
  \<^verbatim>\<open>Failed to validate applicant\<close>, in which the violation cannot be read.
\<close>

theorem save_error_lists_no_violation:
  "ageValidator ((testApplicant None 1 None None)\<lparr>age := NaN\<rparr>) = [''age must be a number''] \<and>
   fst (save ageValidator noFailure ((testApplicant None 1 None None)\<lparr>age := NaN\<rparr>) None emptyWorld) =
     Inl (Error ''Failed to validate applicant'') \<and>
   \<not> lists_violations (Error ''Failed to validate applicant'') [''age must be a number'']"
  by (simp add: save_def testApplicant_def ageValidator_def lists_violations_def)

text \<open>
  C9. When exactly one of the CV key and the file buffer is supplied (a key without a
  buffer, or a buffer for an applicant without a key), \<^verbatim>\<open>save\<close> is validation followed by
  the persist and nothing else: the object storage is untouched, the only write attempted
  for a valid applicant is the persist, and when the database does not fail the saved
  record is returned and a stored row holds every column that it defines (the row is the
  returned record itself for a new applicant). The missing half is not an error.
\<close>

theorem save_skips_upload_for_half_pair:
  assumes "(cvFile = None \<and> truthy_str (cv a)) \<or> (cvFile \<noteq> None \<and> \<not> truthy_str (cv a))"
  shows "save validate e a cvFile w =
           (if validate a = [] then persist e a w
            else (Inl (Error ''Failed to validate applicant''),
                  w\<lparr>logger := logger w @ [LogError (validate a)]\<rparr>)) \<and>
         storage (snd (save validate e a cvFile w)) = storage w \<and>
         (validate a = [] \<longrightarrow>
            effects (snd (save validate e a cvFile w)) = effects w @ [RepoSave a]) \<and>
         (validate a = [] \<and> saveFails e = None \<longrightarrow>
            (\<exists>saved row. fst (save validate e a cvFile w) = Inr saved \<and>
                     row \<in> set (applicants (snd (save validate e a cvFile w))) \<and>
                     written_over saved row = row \<and>
                     (applicant_id a = None \<longrightarrow> row = saved)))"
proof (cases "validate a = []")
  case True
  from assms have "cvFile = None \<or> \<not> truthy_str (cv a)" by blast
  with True have eq: "save validate e a cvFile w = persist e a w" by (rule save_no_upload)
  have stored: "saveFails e = None \<longrightarrow>
      (\<exists>saved row. fst (persist e a w) = Inr saved \<and>
         row \<in> set (applicants (snd (persist e a w))) \<and>
         written_over saved row = row \<and>
         (applicant_id a = None \<longrightarrow> row = saved))"
    using persist_stores [of e a w] by blast
  from True stored show ?thesis
    unfolding eq by (simp add: effects_persist storage_persist)
next
  case False
  then show ?thesis by (simp add: save_invalid)
qed

theorem save_skips_upload_for_half_pair_witness:
  "save noValidator noFailure (testApplicant None 1 (Some ''u.txt'') None) None emptyWorld =
     persist noFailure (testApplicant None 1 (Some ''u.txt'') None) emptyWorld \<and>
   effects (snd (save noValidator noFailure (testApplicant None 1 None None) (Some [117]) emptyWorld)) =
     [RepoSave (testApplicant None 1 None None)] \<and>
   storage (snd (save noValidator noFailure (testApplicant None 1 None None) (Some [117]) emptyWorld)) =
     Map.empty"
proof -
  let ?A = "testApplicant None 1 (Some ''u.txt'') None"
  let ?B = "testApplicant None 1 None None"
  have key_only: "((None :: Buffer option) = None \<and> truthy_str (cv ?A)) \<or>
      ((None :: Buffer option) \<noteq> None \<and> \<not> truthy_str (cv ?A))"
    by (simp add: testApplicant_def)
  have buffer_only: "(Some [117 :: nat] = None \<and> truthy_str (cv ?B)) \<or>
      (Some [117 :: nat] \<noteq> None \<and> \<not> truthy_str (cv ?B))"
    by (simp add: testApplicant_def)
  have valid: "noValidator ?A = []" "noValidator ?B = []"
    by (simp_all add: noValidator_def)
  have empty: "effects emptyWorld = []" "storage emptyWorld = Map.empty"
    by (simp_all add: emptyWorld_def)
  note key_case = save_skips_upload_for_half_pair [OF key_only, of noValidator noFailure emptyWorld]
  note buffer_case = save_skips_upload_for_half_pair [OF buffer_only, of noValidator noFailure emptyWorld]
  have "save noValidator noFailure ?A None emptyWorld = persist noFailure ?A emptyWorld"
    using key_case [THEN conjunct1] valid by simp
  moreover have "effects (snd (save noValidator noFailure ?B (Some [117]) emptyWorld)) = [RepoSave ?B]"
    using buffer_case [THEN conjunct2, THEN conjunct2, THEN conjunct1] valid empty by simp
  moreover have "storage (snd (save noValidator noFailure ?B (Some [117]) emptyWorld)) = Map.empty"
    using buffer_case [THEN conjunct2, THEN conjunct1] empty by simp
  ultimately show ?thesis by blast
qed

section \<open>Properties of delete\<close>

lemma delete_not_found:
  "find (\<lambda>a. applicant_id a = Some i) (applicants w) = None \<Longrightarrow>
   delete e i w = (Inl (Error ''Failed to find applicant using the provided ID''), w)"
  by (simp add: delete_def repo_findOneOrFail_def split: option.splits)

lemma applicants_remove_cv: "applicants (remove_cv e a w) = applicants w"
  by (simp add: remove_cv_def cloud_delete_def Let_def split: option.splits)

lemma delete_blob_failure:
  assumes "findFails e = None" "find (\<lambda>a. applicant_id a = Some i) (applicants w) = Some a"
    "cv a = Some key" "key \<noteq> []" "blobDeleteFails e = Some err" "deleteFails e = None"
  shows "delete e i w =
      (Inr \<lparr>affected = length [x \<leftarrow> applicants w. applicant_id x = Some i]\<rparr>,
       w\<lparr>applicants := [x \<leftarrow> applicants w. applicant_id x \<noteq> Some i],
         logger := logger w @ [LogError [err, ''Failed to remove the applicants CV'']],
         effects := effects w @ [CloudDelete key, RepoDelete i]\<rparr>)"
  using assms
  by (simp add: delete_def repo_findOneOrFail_def remove_cv_def cloud_delete_def repo_delete_def Let_def)

lemma delete_indep:
  "fst (delete (e\<lparr>blobDeleteFails := x\<rparr>) i w) = fst (delete (e\<lparr>blobDeleteFails := y\<rparr>) i w) \<and>
   applicants (snd (delete (e\<lparr>blobDeleteFails := x\<rparr>) i w)) =
   applicants (snd (delete (e\<lparr>blobDeleteFails := y\<rparr>) i w))"
  by (simp add: delete_def repo_findOneOrFail_def repo_delete_def Let_def applicants_remove_cv
      split: option.splits sum.splits)

text \<open>
  C6. \<^verbatim>\<open>delete(id)\<close> fails with \<^verbatim>\<open>Failed to find applicant using the provided ID\<close> and
  changes nothing when no applicant has this id. When the applicant exists with a CV key
  and the removal of the blob fails, the failure is logged and the rows of the applicant
  are deleted all the same, the deletion result being returned (the database not failing).
  Whatever the inputs, a failing blob removal gives the same result and the same table as
  a succeeding one: it never fails the delete.
\<close>

theorem delete_not_found_and_best_effort_cleanup:
  "(find (\<lambda>a. applicant_id a = Some i) (applicants w) = None \<longrightarrow>
      delete e i w = (Inl (Error ''Failed to find applicant using the provided ID''), w)) \<and>
   (findFails e = None \<and> find (\<lambda>a. applicant_id a = Some i) (applicants w) = Some a \<and>
    cv a = Some key \<and> key \<noteq> [] \<and> blobDeleteFails e = Some err \<and> deleteFails e = None \<longrightarrow>
      delete e i w =
        (Inr \<lparr>affected = length [x \<leftarrow> applicants w. applicant_id x = Some i]\<rparr>,
         w\<lparr>applicants := [x \<leftarrow> applicants w. applicant_id x \<noteq> Some i],
           logger := logger w @ [LogError [err, ''Failed to remove the applicants CV'']],
           effects := effects w @ [CloudDelete key, RepoDelete i]\<rparr>)) \<and>
   fst (delete (e\<lparr>blobDeleteFails := Some err\<rparr>) i w) =
     fst (delete (e\<lparr>blobDeleteFails := None\<rparr>) i w) \<and>
   applicants (snd (delete (e\<lparr>blobDeleteFails := Some err\<rparr>) i w)) =
     applicants (snd (delete (e\<lparr>blobDeleteFails := None\<rparr>) i w))"
  using delete_not_found [where e = e and i = i and w = w]
    delete_blob_failure [where e = e and i = i and w = w and a = a and key = key and err = err]
    delete_indep [where e = e and x = "Some err" and i = i and w = w and y = None]
  by blast

theorem delete_not_found_and_best_effort_cleanup_witness:
  "delete noFailure ''zz'' cvWorld =
     (Inl (Error ''Failed to find applicant using the provided ID''), cvWorld) \<and>
   delete (noFailure\<lparr>blobDeleteFails := Some ''503''\<rparr>) ''a1'' cvWorld =
     (Inr \<lparr>affected = 1\<rparr>,
      cvWorld\<lparr>applicants := [],
        logger := [LogError [''503'', ''Failed to remove the applicants CV'']],
        effects := [CloudDelete ''u.txt'', RepoDelete ''a1'']\<rparr>)"
proof -
  let ?a = "testApplicant (Some ''a1'') 1 (Some ''u.txt'') (Some 30)"
  let ?e = "noFailure\<lparr>blobDeleteFails := Some ''503''\<rparr>"
  have absent: "find (\<lambda>a. applicant_id a = Some ''zz'') (applicants cvWorld) = None"
    by (simp add: cvWorld_def testApplicant_def)
  have present: "findFails ?e = None \<and>
      find (\<lambda>a. applicant_id a = Some ''a1'') (applicants cvWorld) = Some ?a \<and>
      cv ?a = Some ''u.txt'' \<and> ''u.txt'' \<noteq> [] \<and> blobDeleteFails ?e = Some ''503'' \<and>
      deleteFails ?e = None"
    by (simp add: noFailure_def cvWorld_def testApplicant_def)
  have rows: "[x \<leftarrow> applicants cvWorld. applicant_id x = Some ''a1''] = [?a]"
      "[x \<leftarrow> applicants cvWorld. applicant_id x \<noteq> Some ''a1''] = []"
      "logger cvWorld = []" "effects cvWorld = []"
    by (simp_all add: cvWorld_def testApplicant_def)
  note t1 = delete_not_found_and_best_effort_cleanup
    [where e = noFailure and i = "''zz''" and w = cvWorld, THEN conjunct1, rule_format, OF absent]
  note t2 = delete_not_found_and_best_effort_cleanup
    [where e = ?e and i = "''a1''" and w = cvWorld and a = ?a and key = "''u.txt''" and err = "''503''",
      THEN conjunct2, THEN conjunct1, rule_format, OF present]
  from t1 t2 rows show ?thesis by simp
qed

section \<open>Properties of the review recording\<close>

lemma reviewsOfPair_submit_other:
  "(reviewerID', applicantID') \<noteq> (reviewerID, applicantID) \<Longrightarrow>
   reviewsOfPair reviewerID applicantID (snd (submitReview e reviewerID' applicantID' score w)) =
   reviewsOfPair reviewerID applicantID w"
  by (auto simp: reviewsOfPair_def submitReview_def Let_def)

lemma submitReview_conflict:
  "reviewsOfPair reviewerID applicantID w \<noteq> [] \<Longrightarrow>
   submitReview e reviewerID applicantID score w = (Inl ConflictError, w)"
  by (simp add: reviewsOfPair_def submitReview_def)

lemma submitReview_first:
  "reviewsOfPair reviewerID applicantID w = [] \<Longrightarrow>
   \<exists>r. fst (submitReview e reviewerID applicantID score w) = Inr r \<and>
       reviewsOfPair reviewerID applicantID (snd (submitReview e reviewerID applicantID score w)) = [r]"
  by (simp add: reviewsOfPair_def submitReview_def Let_def)

lemma submitReview_at_most_one:
  assumes "length (reviewsOfPair reviewerID applicantID w) \<le> 1"
  shows "length (reviewsOfPair reviewerID applicantID
           (snd (submitReview e reviewerID' applicantID' score w))) \<le> 1"
proof (cases "(reviewerID', applicantID') = (reviewerID, applicantID)")
  case False
  then have "reviewsOfPair reviewerID applicantID
      (snd (submitReview e reviewerID' applicantID' score w)) =
      reviewsOfPair reviewerID applicantID w"
    by (rule reviewsOfPair_submit_other)
  with assms show ?thesis by simp
next
  case True
  then have same: "reviewerID' = reviewerID" "applicantID' = applicantID" by simp_all
  show ?thesis
  proof (cases "reviewsOfPair reviewerID applicantID w = []")
    case True
    from submitReview_first [OF this, of e score] show ?thesis by (auto simp: same)
  next
    case False
    with assms show ?thesis by (simp add: same submitReview_conflict)
  qed
qed

lemma submitAll_at_most_one:
  "length (reviewsOfPair reviewerID applicantID w) \<le> 1 \<Longrightarrow>
   length (reviewsOfPair reviewerID applicantID (submitAll history w)) \<le> 1"
proof (induction history arbitrary: w)
  case Nil
  then show ?case by simp
next
  case (Cons s history)
  obtain e r a sc where s: "s = (e, r, a, sc)" by (cases s) auto
  from Cons.prems have "length (reviewsOfPair reviewerID applicantID
      (snd (submitReview e r a sc w))) \<le> 1"
    by (rule submitReview_at_most_one)
  then have "length (reviewsOfPair reviewerID applicantID
      (submitAll history (snd (submitReview e r a sc w)))) \<le> 1"
    by (rule Cons.IH)
  then show ?case unfolding s by simp
qed

text \<open>
  C3. For every reviewer and applicant, at most one review of the pair exists: a store
  with at most one keeps at most one through any history of submissions (so does the
  empty store); a submission for a pair that has a review is rejected with ConflictError
  and changes nothing; and after a first accepted submission, the stored reviews of the
  pair are exactly that one, a second submission being rejected without change.
\<close>

theorem one_review_per_pair:
  "(length (reviewsOfPair reviewerID applicantID w) \<le> 1 \<longrightarrow>
      length (reviewsOfPair reviewerID applicantID (submitAll history w)) \<le> 1) \<and>
   (reviewsOfPair reviewerID applicantID w \<noteq> [] \<longrightarrow>
      submitReview e reviewerID applicantID score w = (Inl ConflictError, w)) \<and>
   (reviewsOfPair reviewerID applicantID w = [] \<longrightarrow>
      (\<exists>r. fst (submitReview e reviewerID applicantID score w) = Inr r \<and>
           reviewsOfPair reviewerID applicantID
             (snd (submitReview e reviewerID applicantID score w)) = [r] \<and>
           submitReview e' reviewerID applicantID score'
             (snd (submitReview e reviewerID applicantID score w)) =
             (Inl ConflictError, snd (submitReview e reviewerID applicantID score w))))"
proof (intro conjI impI)
  assume "length (reviewsOfPair reviewerID applicantID w) \<le> 1"
  then show "length (reviewsOfPair reviewerID applicantID (submitAll history w)) \<le> 1"
    by (rule submitAll_at_most_one)
next
  assume "reviewsOfPair reviewerID applicantID w \<noteq> []"
  then show "submitReview e reviewerID applicantID score w = (Inl ConflictError, w)"
    by (rule submitReview_conflict)
next
  assume "reviewsOfPair reviewerID applicantID w = []"
  from submitReview_first [OF this, of e score] obtain r where
    r: "fst (submitReview e reviewerID applicantID score w) = Inr r"
       "reviewsOfPair reviewerID applicantID
          (snd (submitReview e reviewerID applicantID score w)) = [r]"
    by blast
  from r(2) have "reviewsOfPair reviewerID applicantID
      (snd (submitReview e reviewerID applicantID score w)) \<noteq> []" by simp
  from submitReview_conflict [OF this] r
  show "\<exists>r. fst (submitReview e reviewerID applicantID score w) = Inr r \<and>
           reviewsOfPair reviewerID applicantID
             (snd (submitReview e reviewerID applicantID score w)) = [r] \<and>
           submitReview e' reviewerID applicantID score'
             (snd (submitReview e reviewerID applicantID score w)) =
             (Inl ConflictError, snd (submitReview e reviewerID applicantID score w))"
    by blast
qed

theorem one_review_per_pair_witness:
  "length (reviewsOfPair ''rev1'' ''a1''
     (submitAll [(noFailure, ''rev1'', ''a1'', 2), (noFailure, ''rev1'', ''a1'', 3)] emptyWorld)) \<le> 1 \<and>
   (\<exists>r. fst (submitReview noFailure ''rev1'' ''a1'' 2 emptyWorld) = Inr r \<and>
        reviewsOfPair ''rev1'' ''a1'' (snd (submitReview noFailure ''rev1'' ''a1'' 2 emptyWorld)) = [r] \<and>
        submitReview noFailure ''rev1'' ''a1'' 3
          (snd (submitReview noFailure ''rev1'' ''a1'' 2 emptyWorld)) =
          (Inl ConflictError, snd (submitReview noFailure ''rev1'' ''a1'' 2 emptyWorld)))"
proof -
  have none: "reviewsOfPair ''rev1'' ''a1'' emptyWorld = []"
    by (simp add: reviewsOfPair_def emptyWorld_def)
  then have few: "length (reviewsOfPair ''rev1'' ''a1'' emptyWorld) \<le> 1" by simp
  note t = one_review_per_pair [where reviewerID = "''rev1''" and applicantID = "''a1''"
      and w = emptyWorld and e = noFailure and score = 2 and e' = noFailure and score' = 3
      and history = "[(noFailure, ''rev1'', ''a1'', 2), (noFailure, ''rev1'', ''a1'', 3)]"]
  from t [THEN conjunct1, rule_format, OF few]
    t [THEN conjunct2, THEN conjunct2, rule_format, OF none]
  show ?thesis by blast
qed

section \<open>Properties of the controller\<close>

text \<open>
  C7. For an applicant that the lookup finds: when the status is not Confirmed, the
  check-in is rejected (BAD_REQUEST) with no call to \<^verbatim>\<open>save\<close> and the state as the lookup
  left it; when the status is Confirmed, the applicant is saved with the status Admitted
  and nothing else is done. The check-in answers with success exactly when the status is
  Confirmed and that save succeeds; so, the save not failing, it succeeds exactly when the
  status is Confirmed.
\<close>

theorem checkin_only_confirmed:
  assumes "svc_findOne svc checkinID None st = (Inr a, st1)"
  shows "(applicationStatus a \<noteq> Confirmed S \<longrightarrow>
            checkin S svc checkinID st =
              ((Send BAD_REQUEST False ''Hacker was either rejected or did not confirm'',
                [FindOne checkinID None]), st1)) \<and>
         (applicationStatus a = Confirmed S \<longrightarrow>
            snd (fst (checkin S svc checkinID st)) =
              [FindOne checkinID None, Save (a\<lparr>applicationStatus := Admitted S\<rparr>) None] \<and>
            snd (checkin S svc checkinID st) =
              snd (svc_save svc (a\<lparr>applicationStatus := Admitted S\<rparr>) None st1)) \<and>
         (fst (fst (checkin S svc checkinID st)) = Send OK False ''Hacker checked in!'' \<longleftrightarrow>
            applicationStatus a = Confirmed S \<and>
            \<not> isl (fst (svc_save svc (a\<lparr>applicationStatus := Admitted S\<rparr>) None st1))) \<and>
         (\<not> isl (fst (svc_save svc (a\<lparr>applicationStatus := Admitted S\<rparr>) None st1)) \<longrightarrow>
            (fst (fst (checkin S svc checkinID st)) = Send OK False ''Hacker checked in!'' \<longleftrightarrow>
             applicationStatus a = Confirmed S))"
proof (cases "applicationStatus a = Confirmed S")
  case False
  with assms show ?thesis by (simp add: checkin_def)
next
  case True
  obtain r st2 where sv: "svc_save svc (a\<lparr>applicationStatus := Admitted S\<rparr>) None st1 = (r, st2)"
    by (cases "svc_save svc (a\<lparr>applicationStatus := Admitted S\<rparr>) None st1")
  show ?thesis
  proof (cases r)
    case (Inl err)
    with assms True sv show ?thesis by (simp add: checkin_def Let_def)
  next
    case (Inr saved)
    with assms True sv show ?thesis by (simp add: checkin_def Let_def)
  qed
qed

theorem checkin_only_confirmed_witness:
  "fst (checkin exampleStatus (testService (testApplicant (Some ''a1'') 4 None (Some 30))) ''a1''
      (emptyWorld\<lparr>applicants := [testApplicant (Some ''a1'') 4 None (Some 30)]\<rparr>)) =
     (Send OK False ''Hacker checked in!'',
      [FindOne ''a1'' None, Save (testApplicant (Some ''a1'') 5 None (Some 30)) None]) \<and>
   applicants (snd (checkin exampleStatus (testService (testApplicant (Some ''a1'') 4 None (Some 30))) ''a1''
      (emptyWorld\<lparr>applicants := [testApplicant (Some ''a1'') 4 None (Some 30)]\<rparr>))) =
     [testApplicant (Some ''a1'') 5 None (Some 30)] \<and>
   checkin exampleStatus (testService (testApplicant (Some ''a1'') 1 None (Some 30))) ''a1''
      (emptyWorld\<lparr>applicants := [testApplicant (Some ''a1'') 1 None (Some 30)]\<rparr>) =
     ((Send BAD_REQUEST False ''Hacker was either rejected or did not confirm'',
       [FindOne ''a1'' None]),
      emptyWorld\<lparr>applicants := [testApplicant (Some ''a1'') 1 None (Some 30)]\<rparr>)"
proof -
  let ?c = "testApplicant (Some ''a1'') 4 None (Some 30)"
  let ?r = "testApplicant (Some ''a1'') 1 None (Some 30)"
  let ?wc = "emptyWorld\<lparr>applicants := [?c]\<rparr>"
  let ?wr = "emptyWorld\<lparr>applicants := [?r]\<rparr>"
  have fc: "svc_findOne (testService ?c) ''a1'' None ?wc = (Inr ?c, ?wc)"
    by (simp add: testService_def)
  have fr: "svc_findOne (testService ?r) ''a1'' None ?wr = (Inr ?r, ?wr)"
    by (simp add: testService_def)
  have sc: "applicationStatus ?c = Confirmed exampleStatus"
    and sr: "applicationStatus ?r \<noteq> Confirmed exampleStatus"
    and adm: "?c\<lparr>applicationStatus := Admitted exampleStatus\<rparr> = testApplicant (Some ''a1'') 5 None (Some 30)"
    by (simp_all add: testApplicant_def exampleStatus_def)
  have saved: "svc_save (testService ?c) (testApplicant (Some ''a1'') 5 None (Some 30)) None ?wc =
      (Inr (testApplicant (Some ''a1'') 5 None (Some 30)),
       ?wc\<lparr>applicants := [testApplicant (Some ''a1'') 5 None (Some 30)],
            effects := [RepoSave (testApplicant (Some ''a1'') 5 None (Some 30))]\<rparr>)"
    by (simp add: testService_def save_def persist_def repo_save_def noValidator_def
        noFailure_def emptyWorld_def testApplicant_def written_over_def defined_or_def
        some_or_def Let_def)
  note c = checkin_only_confirmed [OF fc, of exampleStatus]
  note r = checkin_only_confirmed [OF fr, of exampleStatus]
  have "fst (fst (checkin exampleStatus (testService ?c) ''a1'' ?wc)) = Send OK False ''Hacker checked in!''"
    using c [THEN conjunct2, THEN conjunct2, THEN conjunct1] sc adm saved by simp
  moreover have "snd (fst (checkin exampleStatus (testService ?c) ''a1'' ?wc)) =
      [FindOne ''a1'' None, Save (testApplicant (Some ''a1'') 5 None (Some 30)) None]"
    using c [THEN conjunct2, THEN conjunct1] sc adm by simp
  moreover have "applicants (snd (checkin exampleStatus (testService ?c) ''a1'' ?wc)) =
      [testApplicant (Some ''a1'') 5 None (Some 30)]"
    using c [THEN conjunct2, THEN conjunct1] sc adm saved by simp
  moreover have "checkin exampleStatus (testService ?r) ''a1'' ?wr =
     ((Send BAD_REQUEST False ''Hacker was either rejected or did not confirm'',
       [FindOne ''a1'' None]), ?wr)"
    using r [THEN conjunct1] sr by simp
  ultimately show ?thesis by (simp add: prod_eq_iff)
qed

text \<open>
  C8. For the applicant that the lookup finds, the cancellation calls the service's
  deletion, and nothing else, only when the status is at most Applied (and applications
  are open): the state it leaves is the one the deletion leaves, and its answer follows
  the deletion's outcome. In every other case it saves the applicant with the status
  Cancelled instead: the state it leaves is the one that save leaves, and its answer
  follows that save's outcome. The deletion is never called for an applicant whose status
  is above Applied: whatever the deletion of the service would do, the cancellation does
  the same. When the lookup fails, neither is called.
\<close>

theorem cancel_deletes_only_up_to_applied:
  "(svc_findOne svc (user_authId reqUser) (Some ''authId'') st = (Inr a, st1) \<longrightarrow>
      snd (fst (cancel S svc reqUser applicationsOpen st)) =
        (if applicationStatus a \<le> Applied S \<and> applicationsOpen
         then [FindOne (user_authId reqUser) (Some ''authId''), Remove (applicant_id a)]
         else [FindOne (user_authId reqUser) (Some ''authId''),
               Save (a\<lparr>applicationStatus := Cancelled S\<rparr>) None]) \<and>
      (applicationStatus a \<le> Applied S \<and> applicationsOpen \<longrightarrow>
         snd (cancel S svc reqUser applicationsOpen st) =
           snd (svc_remove svc (applicant_id a) st1) \<and>
         fst (fst (cancel S svc reqUser applicationsOpen st)) =
           (case fst (svc_remove svc (applicant_id a) st1) of
              Inl err \<Rightarrow> Next err
            | Inr r \<Rightarrow> Redirect ''/'')) \<and>
      (\<not> (applicationStatus a \<le> Applied S \<and> applicationsOpen) \<longrightarrow>
         snd (cancel S svc reqUser applicationsOpen st) =
           snd (svc_save svc (a\<lparr>applicationStatus := Cancelled S\<rparr>) None st1) \<and>
         fst (fst (cancel S svc reqUser applicationsOpen st)) =
           (case fst (svc_save svc (a\<lparr>applicationStatus := Cancelled S\<rparr>) None st1) of
              Inl err \<Rightarrow> Next err
            | Inr saved \<Rightarrow> Redirect ''/'')) \<and>
      (Applied S < applicationStatus a \<longrightarrow>
         Remove i \<notin> set (snd (fst (cancel S svc reqUser applicationsOpen st))) \<and>
         cancel S (svc\<lparr>svc_remove := other\<rparr>) reqUser applicationsOpen st =
           cancel S svc reqUser applicationsOpen st)) \<and>
   (svc_findOne svc (user_authId reqUser) (Some ''authId'') st = (Inl err, st1) \<longrightarrow>
      cancel S svc reqUser applicationsOpen st =
        ((Next err, [FindOne (user_authId reqUser) (Some ''authId'')]), st1))"
proof (intro conjI impI)
  assume f: "svc_findOne svc (user_authId reqUser) (Some ''authId'') st = (Inr a, st1)"
  obtain removal st_removed where
    removal: "svc_remove svc (applicant_id a) st1 = (removal, st_removed)"
    by (cases "svc_remove svc (applicant_id a) st1")
  obtain saving st_saved where
    saving: "svc_save svc (a\<lparr>applicationStatus := Cancelled S\<rparr>) None st1 = (saving, st_saved)"
    by (cases "svc_save svc (a\<lparr>applicationStatus := Cancelled S\<rparr>) None st1")
  show calls: "snd (fst (cancel S svc reqUser applicationsOpen st)) =
        (if applicationStatus a \<le> Applied S \<and> applicationsOpen
         then [FindOne (user_authId reqUser) (Some ''authId''), Remove (applicant_id a)]
         else [FindOne (user_authId reqUser) (Some ''authId''),
               Save (a\<lparr>applicationStatus := Cancelled S\<rparr>) None])"
    using f removal saving
    by (cases removal; cases saving) (simp_all add: cancel_def Let_def)
  {
    assume early: "applicationStatus a \<le> Applied S \<and> applicationsOpen"
    show "snd (cancel S svc reqUser applicationsOpen st) =
        snd (svc_remove svc (applicant_id a) st1)"
      using f early removal by (cases removal) (simp_all add: cancel_def Let_def)
    show "fst (fst (cancel S svc reqUser applicationsOpen st)) =
        (case fst (svc_remove svc (applicant_id a) st1) of
           Inl err \<Rightarrow> Next err
         | Inr r \<Rightarrow> Redirect ''/'')"
      using f early removal by (cases removal) (simp_all add: cancel_def Let_def)
  }
  {
    assume "\<not> (applicationStatus a \<le> Applied S \<and> applicationsOpen)"
    then have late: "(applicationStatus a \<le> Applied S \<and> applicationsOpen) = False"
      by simp
    show "snd (cancel S svc reqUser applicationsOpen st) =
        snd (svc_save svc (a\<lparr>applicationStatus := Cancelled S\<rparr>) None st1)"
      using f saving by (cases saving) (simp_all add: cancel_def Let_def late)
    show "fst (fst (cancel S svc reqUser applicationsOpen st)) =
        (case fst (svc_save svc (a\<lparr>applicationStatus := Cancelled S\<rparr>) None st1) of
           Inl err \<Rightarrow> Next err
         | Inr saved \<Rightarrow> Redirect ''/'')"
      using f saving by (cases saving) (simp_all add: cancel_def Let_def late)
  }
  {
    assume above: "Applied S < applicationStatus a"
    then show "Remove i \<notin> set (snd (fst (cancel S svc reqUser applicationsOpen st)))"
      by (simp add: calls)
    from above have late: "(applicationStatus a \<le> Applied S) = False" by simp
    show "cancel S (svc\<lparr>svc_remove := other\<rparr>) reqUser applicationsOpen st =
        cancel S svc reqUser applicationsOpen st"
      using f saving by (cases saving) (simp_all add: cancel_def Let_def late)
  }
next
  assume "svc_findOne svc (user_authId reqUser) (Some ''authId'') st = (Inl err, st1)"
  then show "cancel S svc reqUser applicationsOpen st =
        ((Next err, [FindOne (user_authId reqUser) (Some ''authId'')]), st1)"
    by (simp add: cancel_def Let_def)
qed

theorem cancel_deletes_only_up_to_applied_witness:
  "fst (cancel exampleStatus (testService (testApplicant (Some ''a1'') 1 None (Some 30)))
      \<lparr>user_authId = ''010101'', user_name = ''Test'', user_email = ''test@test.com''\<rparr> True
      (emptyWorld\<lparr>applicants := [testApplicant (Some ''a1'') 1 None (Some 30)]\<rparr>)) =
     (Redirect ''/'', [FindOne ''010101'' (Some ''authId''), Remove (Some ''a1'')]) \<and>
   applicants (snd (cancel exampleStatus (testService (testApplicant (Some ''a1'') 1 None (Some 30)))
      \<lparr>user_authId = ''010101'', user_name = ''Test'', user_email = ''test@test.com''\<rparr> True
      (emptyWorld\<lparr>applicants := [testApplicant (Some ''a1'') 1 None (Some 30)]\<rparr>))) = [] \<and>
   fst (cancel exampleStatus (testService (testApplicant (Some ''a1'') 4 None (Some 30)))
      \<lparr>user_authId = ''010101'', user_name = ''Test'', user_email = ''test@test.com''\<rparr> True
      (emptyWorld\<lparr>applicants := [testApplicant (Some ''a1'') 4 None (Some 30)]\<rparr>)) =
     (Redirect ''/'', [FindOne ''010101'' (Some ''authId''),
        Save (testApplicant (Some ''a1'') 7 None (Some 30)) None]) \<and>
   applicants (snd (cancel exampleStatus (testService (testApplicant (Some ''a1'') 4 None (Some 30)))
      \<lparr>user_authId = ''010101'', user_name = ''Test'', user_email = ''test@test.com''\<rparr> True
      (emptyWorld\<lparr>applicants := [testApplicant (Some ''a1'') 4 None (Some 30)]\<rparr>))) =
     [testApplicant (Some ''a1'') 7 None (Some 30)] \<and>
   Remove (Some ''a1'') \<notin> set (snd (fst (cancel exampleStatus
      (testService (testApplicant (Some ''a1'') 4 None (Some 30)))
      \<lparr>user_authId = ''010101'', user_name = ''Test'', user_email = ''test@test.com''\<rparr> True
      (emptyWorld\<lparr>applicants := [testApplicant (Some ''a1'') 4 None (Some 30)]\<rparr>))))"
proof -
  let ?u = "\<lparr>user_authId = ''010101'', user_name = ''Test'', user_email = ''test@test.com''\<rparr>"
  let ?early = "testApplicant (Some ''a1'') 1 None (Some 30)"
  let ?late = "testApplicant (Some ''a1'') 4 None (Some 30)"
  let ?gone = "testApplicant (Some ''a1'') 7 None (Some 30)"
  let ?we = "emptyWorld\<lparr>applicants := [?early]\<rparr>"
  let ?wl = "emptyWorld\<lparr>applicants := [?late]\<rparr>"
  have fe: "svc_findOne (testService ?early) (user_authId ?u) (Some ''authId'') ?we = (Inr ?early, ?we)"
    and fl: "svc_findOne (testService ?late) (user_authId ?u) (Some ''authId'') ?wl = (Inr ?late, ?wl)"
    by (simp_all add: testService_def)
  have se: "applicationStatus ?early \<le> Applied exampleStatus \<and> True"
    and sl: "\<not> (applicationStatus ?late \<le> Applied exampleStatus \<and> True)"
    and above: "Applied exampleStatus < applicationStatus ?late"
    and ide: "applicant_id ?early = Some ''a1''"
    and cancelled: "?late\<lparr>applicationStatus := Cancelled exampleStatus\<rparr> = ?gone"
    and u: "user_authId ?u = ''010101''"
    by (simp_all add: testApplicant_def exampleStatus_def)
  have removed: "svc_remove (testService ?early) (Some ''a1'') ?we =
      (Inr \<lparr>affected = 1\<rparr>, ?we\<lparr>applicants := [], effects := [RepoDelete ''a1'']\<rparr>)"
    by (simp add: testService_def delete_def repo_findOneOrFail_def remove_cv_def
        repo_delete_def noFailure_def emptyWorld_def testApplicant_def Let_def)
  have saved: "svc_save (testService ?late) ?gone None ?wl =
      (Inr ?gone, ?wl\<lparr>applicants := [?gone], effects := [RepoSave ?gone]\<rparr>)"
    by (simp add: testService_def save_def persist_def repo_save_def noValidator_def
        noFailure_def emptyWorld_def testApplicant_def written_over_def defined_or_def
        some_or_def Let_def)
  note e = cancel_deletes_only_up_to_applied [where svc = "testService ?early" and reqUser = ?u
      and st = ?we and a = ?early and ?st1.0 = ?we and S = exampleStatus
      and applicationsOpen = True, THEN conjunct1, rule_format, OF fe]
  note l = cancel_deletes_only_up_to_applied [where svc = "testService ?late" and reqUser = ?u
      and st = ?wl and a = ?late and ?st1.0 = ?wl and S = exampleStatus
      and applicationsOpen = True and i = "Some ''a1''", THEN conjunct1, rule_format, OF fl]
  note e_state = e [THEN conjunct2, THEN conjunct1, rule_format, OF se]
  note l_state = l [THEN conjunct2, THEN conjunct2, THEN conjunct1, rule_format, OF sl]
  note l_never = l [THEN conjunct2, THEN conjunct2, THEN conjunct2, rule_format, OF above]
  have "snd (fst (cancel exampleStatus (testService ?early) ?u True ?we)) =
      [FindOne ''010101'' (Some ''authId''), Remove (Some ''a1'')]"
    using e [THEN conjunct1] se ide u by simp
  moreover have "fst (fst (cancel exampleStatus (testService ?early) ?u True ?we)) = Redirect ''/''"
    using e_state [THEN conjunct2] ide removed by simp
  moreover have "applicants (snd (cancel exampleStatus (testService ?early) ?u True ?we)) = []"
    using e_state [THEN conjunct1] ide removed by simp
  moreover have "snd (fst (cancel exampleStatus (testService ?late) ?u True ?wl)) =
      [FindOne ''010101'' (Some ''authId''), Save ?gone None]"
    using l [THEN conjunct1] sl cancelled u by simp
  moreover have "fst (fst (cancel exampleStatus (testService ?late) ?u True ?wl)) = Redirect ''/''"
    using l_state [THEN conjunct2] cancelled saved by simp
  moreover have "applicants (snd (cancel exampleStatus (testService ?late) ?u True ?wl)) = [?gone]"
    using l_state [THEN conjunct1] cancelled saved by simp
  moreover have "Remove (Some ''a1'') \<notin>
      set (snd (fst (cancel exampleStatus (testService ?late) ?u True ?wl)))"
    using l_never [THEN conjunct1] by simp
  ultimately show ?thesis by (simp add: prod_eq_iff)
qed







end
